theory Spec2Isabelle
  imports Complex_Main "HOL-Library.AList" "HOL-Library.Multiset"
begin

section \<open>Errors\<close>

text \<open>
  Every exception the module can raise is a value. \<open>Exception\<close> carries the message of an
  explicit \<^verbatim>\<open>raise Exception(...)\<close>; \<open>AssertionError\<close> carries the maximum and minimum
  label that the message of the assertion in \<^verbatim>\<open>learn_rel\<close> reports. \<open>Raised\<close> stands for
  whatever an external collaborator (data loader, trainer) raises.
\<close>

datatype error =
    Exception string
  | TypeError
  | ValueError
  | IndexError
  | KeyError
  | RuntimeError
  | OverflowError
  | AssertionError real real
  | FileNotFoundError
  | NotADirectoryError
  | IsADirectoryError
  | FileExistsError
  | Raised string

section \<open>The model factory\<close>

text \<open>
  The classes of \<^verbatim>\<open>embrelpredict.model\<close> are external; a constructed classifier is
  represented by the constructor call that built it.
\<close>

datatype model =
    LogisticRegression int
  | NNBiClassifier int "int list" "real list"
  | DummyBiClassifier int "real list"

text \<open>
  \<^verbatim>\<open>_build_model(name, indim)\<close>. The last branch evaluates
  \<^verbatim>\<open>'Unknown model name %d' % name\<close> with a string \<^verbatim>\<open>name\<close>; the \<^verbatim>\<open>%d\<close>
  conversion of a string raises TypeError before the Exception is constructed.
\<close>

definition build_model :: "string \<Rightarrow> int \<Rightarrow> error + model" where
  "build_model name indim =
    (if name = ''logreg'' then Inr (LogisticRegression indim)
     else if name = ''nn1'' then Inr (NNBiClassifier indim [indim] [0.5])
     else if name = ''nn2'' then
       (if indim = 600 then Inr (NNBiClassifier indim [750, 400] [0.5, 0.5])
        else if indim = 300 then Inr (NNBiClassifier indim [400, 150] [0.5, 0.5])
        else Inl (Exception ''Unexpected input dimension''))
     else if name = ''nn3'' then
       (if indim = 600 then Inr (NNBiClassifier indim [750, 500, 250] [0.5, 0.5, 0.5])
        else if indim = 300 then Inr (NNBiClassifier indim [400, 200, 100] [0.5, 0.5, 0.5])
        else Inl (Exception ''Unexpected input dimension''))
     else if name = ''alwaysT'' then Inr (DummyBiClassifier indim [0.01, 0.99])
     else if name = ''alwaysF'' then Inr (DummyBiClassifier indim [0.99, 0.01])
     else Inl TypeError)"

definition known_models :: "string list" where
  "known_models = [''logreg'', ''nn1'', ''nn2'', ''nn3'', ''alwaysT'', ''alwaysF'']"

section \<open>The epoch heuristic\<close>

text \<open>
  Python's \<^verbatim>\<open>round\<close> of a float to an integer rounds a tie to the even neighbour.
\<close>

definition py_round :: "real \<Rightarrow> int" where
  "py_round x =
     (if frac x = 1 / 2 then (if even \<lfloor>x\<rfloor> then \<lfloor>x\<rfloor> else \<lfloor>x\<rfloor> + 1) else round x)"

text \<open>
  The division \<^verbatim>\<open>trainset_size/2\<close> of an integer yields the nearest double and raises
  \<open>OverflowError\<close> when that is beyond the largest one: the first size for which it does
  is \<open>2 ^ 1025 - 2 ^ 971\<close>.
\<close>

definition true_div_limit :: nat where
  "true_div_limit = 2 ^ 1025 - 2 ^ 971"

text \<open>
  \<^verbatim>\<open>_epochs_from_trainset_size\<close>. \<^verbatim>\<open>math.log10\<close> of zero raises \<open>ValueError\<close>, and the
  division overflows from \<open>true_div_limit\<close> on. Below that the value is computed over the
  reals. The source computes in double precision; the result is the same, because a
  rounding error can change the order only at a size within a relative distance of about
  \<open>10\<^sup>-\<^sup>1\<^sup>5\<close> of a boundary \<open>2 * 10 powr (k + 3 / 2)\<close>, no integer is that near to a
  boundary up to the order 8, and from the order 8 on the result is 0 whatever the order.
\<close>

definition epochs_from_trainset_size :: "nat \<Rightarrow> error + int" where
  "epochs_from_trainset_size trainset_size =
     (if trainset_size = 0 then Inl ValueError
      else if true_div_limit \<le> trainset_size then Inl OverflowError
      else
        let log10 = log 10 (real trainset_size / 2);
            order = py_round (log10 - 1);
            inv_order = 5 - order;
            factor = 2 powr (real_of_int inv_order);
            base = 3
        in Inr (py_round (factor * base)))"

text \<open>
  The heuristic in closed form, as a table over the size; it is not taken from the source
  but proved equal to it below (\<open>epochs_closed_form\<close>), and it evaluates.
\<close>

definition epochs_by_size :: "nat \<Rightarrow> int" where
  "epochs_by_size n =
     (if n \<le> 6 then 192 else if n \<le> 63 then 96 else if n \<le> 632 then 48
      else if n \<le> 6324 then 24 else if n \<le> 63245 then 12 else if n \<le> 632455 then 6
      else if n \<le> 6324555 then 3 else if n \<le> 63245553 then 2
      else if n \<le> 632455532 then 1 else 0)"

section \<open>Data model\<close>

text \<open>
  A relation metadata record, as \<^verbatim>\<open>load_rels_meta\<close> builds it (keys \<^verbatim>\<open>type\<close>,
  \<^verbatim>\<open>name\<close>, \<^verbatim>\<open>cnt\<close>, \<^verbatim>\<open>file\<close>).
\<close>

record rel_meta =
  meta_type :: string
  meta_name :: string
  meta_cnt :: int
  meta_file :: string

text \<open>
  One run result (the dictionary \<^verbatim>\<open>model_result\<close> of \<^verbatim>\<open>learn_rel\<close>); \<open>run_i\<close> is its
  key \<^verbatim>\<open>i\<close>. The tables are of an abstract type \<open>'df\<close>, the metric mappings of an abstract
  type \<open>'mt\<close>.
\<close>

record ('df, 'mt) embrun =
  model :: string
  run_i :: int
  emb :: string
  epochs :: int
  pos_exs :: int
  dataset_size :: int
  dataset_tok_cnt :: int
  dataset_tok_found :: int
  trainer_df :: 'df
  pretrain_test_result :: 'mt
  test_df :: 'df
  test_random_result :: 'mt

text \<open>
  A Python dictionary keeps its keys in insertion order; it is an association list with
  distinct keys. \<open>dict_get\<close> is \<^verbatim>\<open>d.get(k, [])\<close>, \<open>dict_set\<close> is \<^verbatim>\<open>d[k] = v\<close>
  (an existing key keeps its place, a new key goes last).
\<close>

type_synonym ('k, 'v) dict = "('k \<times> 'v) list"

definition dict_get :: "('k, 'v list) dict \<Rightarrow> 'k \<Rightarrow> 'v list" where
  "dict_get d k = (case map_of d k of None \<Rightarrow> [] | Some v \<Rightarrow> v)"

definition dict_set :: "('k, 'v) dict \<Rightarrow> 'k \<Rightarrow> 'v \<Rightarrow> ('k, 'v) dict" where
  "dict_set d k v = AList.update k v d"

text \<open>
  The result of learning one relation. \<open>res_pos_exs\<close> is the key \<^verbatim>\<open>pos_exs\<close>, which
  \<^verbatim>\<open>load_learn_result\<close> may leave at \<^verbatim>\<open>None\<close>.
\<close>

record ('df, 'mt) learn_result =
  rel_name :: string
  rel_type :: string
  res_pos_exs :: "int option"
  emb_model_results :: "(string, ('df, 'mt) embrun list) dict"

section \<open>Collaborators, effects and the program monad\<close>

type_synonym path = "string list"

text \<open>
  What \<^verbatim>\<open>learn_rel\<close> does besides returning: the lines it prints and the calls it makes
  to its collaborators, in order.
\<close>

datatype event =
    PrintTooFew string string
  | PrintNotInFilter string string
  | PrintTraining int
  | PrintRun nat string string
  | PrintFile string
  | PrintFinished int
  | PrintUnexpected string
  | CallGenerateRandomPairData string int
  | CallLoadSingleData string path
  | CallLoadPairData string path
  | CallSplitData string int
  | CallBuildModel string int
  | CallModelTrainer bool
  | CallTest
  | CallTrain "nat list"
  | CallTestDf bool
  | CallTestRandom

text \<open>
  The collaborators are stateful and may draw random numbers: each call takes the state of
  the world \<open>'w\<close> and returns the new one, with a value or the exception it raised.
\<close>

record 'w state =
  world :: 'w
  trace :: "event list"

type_synonym ('a, 'w) prog = "'w state \<Rightarrow> (error + 'a) \<times> 'w state"

definition returnE :: "'a \<Rightarrow> ('a, 'w) prog" where
  "returnE a = (\<lambda>s. (Inr a, s))"

definition raiseE :: "error \<Rightarrow> ('a, 'w) prog" where
  "raiseE e = (\<lambda>s. (Inl e, s))"

definition bindE :: "('a, 'w) prog \<Rightarrow> ('a \<Rightarrow> ('b, 'w) prog) \<Rightarrow> ('b, 'w) prog" where
  "bindE m f = (\<lambda>s. case m s of (Inl e, s') \<Rightarrow> (Inl e, s') | (Inr a, s') \<Rightarrow> f a s')"

definition logE :: "event \<Rightarrow> (unit, 'w) prog" where
  "logE ev = (\<lambda>s. (Inr (), s\<lparr>trace := trace s @ [ev]\<rparr>))"

definition liftE :: "error + 'a \<Rightarrow> ('a, 'w) prog" where
  "liftE r = (\<lambda>s. (r, s))"

text \<open>A call to a collaborator: the call is recorded, then it runs on the world.\<close>

definition callE :: "event \<Rightarrow> ('w \<Rightarrow> (error + 'a) \<times> 'w) \<Rightarrow> ('a, 'w) prog" where
  "callE ev f = (\<lambda>s. case f (world s) of
                       (r, w') \<Rightarrow> (r, s\<lparr>world := w', trace := trace s @ [ev]\<rparr>))"

text \<open>\<^verbatim>\<open>try: body except: handler; raise\<close>: the handler runs and the exception goes on.\<close>

definition try_reraise :: "('a, 'w) prog \<Rightarrow> (unit, 'w) prog \<Rightarrow> ('a, 'w) prog" where
  "try_reraise body handler =
     (\<lambda>s. case body s of
            (Inl e, s') \<Rightarrow> (case handler s' of (_, s'') \<Rightarrow> (Inl e, s''))
          | (Inr a, s') \<Rightarrow> (Inr a, s'))"

text \<open>
  A tensor is its shape and its content; the label tensor is the list of its entries, as
  real numbers: the source puts no condition on its dtype, so the entries may be fractions.
  A loader returns \<^verbatim>\<open>(X, Y, ds_n, ds_tc, ds_tf)\<close>.
\<close>

datatype 'x tensor = Tensor (shape: "nat list") (content: 'x)

type_synonym 'x dataset = "'x tensor \<times> real list \<times> int \<times> int \<times> int"

record ('x, 'p, 'w) data_loader =
  generate_random_pair_data :: "int \<Rightarrow> 'w \<Rightarrow> (error + 'x dataset) \<times> 'w"
  load_single_data :: "path \<Rightarrow> 'w \<Rightarrow> (error + 'x dataset) \<times> 'w"
  load_pair_data :: "path \<Rightarrow> 'w \<Rightarrow> (error + 'x dataset) \<times> 'w"
  split_data :: "'x tensor \<Rightarrow> real list \<Rightarrow> int \<Rightarrow> 'w \<Rightarrow> (error + 'p \<times> 'p \<times> 'p) \<times> 'w"

text \<open>
  \<^verbatim>\<open>evalclass.ModelTrainer\<close> and its methods; \<open>tr_df\<close> reads the attribute \<^verbatim>\<open>df\<close> of
  the trainer, which training has filled.
\<close>

record ('p, 't, 'df, 'mt, 'd, 'w) trainer_api =
  tr_new :: "model \<Rightarrow> bool \<Rightarrow> 'w \<Rightarrow> (error + 't) \<times> 'w"
  tr_test :: "'t \<Rightarrow> 'p \<Rightarrow> 'w \<Rightarrow> (error + 'mt) \<times> 'w"
  tr_train :: "'t \<Rightarrow> 'p \<Rightarrow> 'p \<Rightarrow> nat list \<Rightarrow> 'd option \<Rightarrow> 'w \<Rightarrow> (error + unit) \<times> 'w"
  tr_test_df :: "'t \<Rightarrow> 'p \<Rightarrow> bool \<Rightarrow> 'w \<Rightarrow> (error + 'df) \<times> 'w"
  tr_test_random :: "'t \<Rightarrow> 'p \<Rightarrow> 'w \<Rightarrow> (error + 'mt) \<times> 'w"
  tr_df :: "'t \<Rightarrow> 'w \<Rightarrow> 'df"

section \<open>The experiment orchestrator\<close>

text \<open>\<^verbatim>\<open>X.shape[k]\<close>, \<^verbatim>\<open>torch.max(Y)\<close> and \<^verbatim>\<open>torch.min(Y)\<close>.\<close>

definition shape_at :: "'x tensor \<Rightarrow> nat \<Rightarrow> error + nat" where
  "shape_at X k = (if k < length (shape X) then Inr (shape X ! k) else Inl IndexError)"

definition torch_max :: "real list \<Rightarrow> error + real" where
  "torch_max Y = (if Y = [] then Inl RuntimeError else Inr (Max (set Y)))"

definition torch_min :: "real list \<Rightarrow> error + real" where
  "torch_min Y = (if Y = [] then Inl RuntimeError else Inr (Min (set Y)))"

text \<open>The data loading of one iteration (lines 157 to 166).\<close>

definition load_data ::
  "path \<Rightarrow> rel_meta \<Rightarrow> string list \<Rightarrow> string \<Rightarrow> ('x, 'p, 'w) data_loader
     \<Rightarrow> ('x dataset, 'w) prog" where
  "load_data relpath rm single_rel_types loader_name data_loader =
     (let fpath = relpath @ [meta_file rm] in
      if meta_type rm = ''rnd2rnd'' then
        callE (CallGenerateRandomPairData loader_name (meta_cnt rm * 2))
              (generate_random_pair_data data_loader (meta_cnt rm * 2))
      else if meta_type rm \<in> set single_rel_types then
        callE (CallLoadSingleData loader_name fpath) (load_single_data data_loader fpath)
      else
        callE (CallLoadPairData loader_name fpath) (load_pair_data data_loader fpath))"

text \<open>The \<^verbatim>\<open>try\<close> block of one iteration (lines 181 to 201).\<close>

definition train_and_test ::
  "('p, 't, 'df, 'mt, 'd, 'w) trainer_api \<Rightarrow> 'd option \<Rightarrow> bool \<Rightarrow> bool
     \<Rightarrow> rel_meta \<Rightarrow> string \<Rightarrow> string \<Rightarrow> nat \<Rightarrow> int \<Rightarrow> int \<Rightarrow> int \<Rightarrow> int
     \<Rightarrow> model \<Rightarrow> 'p \<Rightarrow> 'p \<Rightarrow> 'p
     \<Rightarrow> (string, ('df, 'mt) embrun list) dict
     \<Rightarrow> ((string, ('df, 'mt) embrun list) dict, 'w) prog" where
  "train_and_test T train_input_disturber debug_test_df cuda rm mname loader_name run
       eps ds_n ds_tc ds_tf my_model trainloader validloader testloader results =
     bindE (callE (CallModelTrainer cuda) (tr_new T my_model cuda)) (\<lambda>trainer.
     bindE (callE CallTest (tr_test T trainer testloader)) (\<lambda>pretrain.
     bindE (callE (CallTrain [0..<nat eps])
              (tr_train T trainer trainloader validloader [0..<nat eps] train_input_disturber))
           (\<lambda>_.
     bindE (logE (PrintFinished eps)) (\<lambda>_.
     bindE (callE (CallTestDf debug_test_df) (tr_test_df T trainer testloader debug_test_df))
           (\<lambda>tdf.
     bindE (callE CallTestRandom (tr_test_random T trainer testloader)) (\<lambda>rnd.
     (\<lambda>s. returnE
       (dict_set results loader_name
          (dict_get results loader_name @
            [\<lparr>model = mname, run_i = int run, emb = loader_name, epochs = eps,
              pos_exs = meta_cnt rm, dataset_size = ds_n, dataset_tok_cnt = ds_tc,
              dataset_tok_found = ds_tf, trainer_df = tr_df T trainer (world s),
              pretrain_test_result = pretrain, test_df = tdf,
              test_random_result = rnd\<rparr>])) s)))))))"

text \<open>The body of the loop, for one combination (lines 155 to 210).\<close>

definition learn_iter ::
  "path \<Rightarrow> rel_meta \<Rightarrow> (string, ('x, 'p, 'w) data_loader) dict \<Rightarrow> string list
     \<Rightarrow> (nat \<Rightarrow> error + int) \<Rightarrow> ('p, 't, 'df, 'mt, 'd, 'w) trainer_api
     \<Rightarrow> 'd option \<Rightarrow> bool \<Rightarrow> bool
     \<Rightarrow> string \<times> string \<times> nat
     \<Rightarrow> (string, ('df, 'mt) embrun list) dict
     \<Rightarrow> ((string, ('df, 'mt) embrun list) dict, 'w) prog" where
  "learn_iter relpath rm data_loaders single_rel_types epochs_fn T
       train_input_disturber debug_test_df cuda combo results =
     (case combo of (mname, loader_name, run) \<Rightarrow>
     bindE (logE (PrintRun run mname loader_name)) (\<lambda>_.
     bindE (liftE (case map_of data_loaders loader_name of
                     None \<Rightarrow> Inl KeyError | Some dl \<Rightarrow> Inr dl)) (\<lambda>data_loader.
     bindE (load_data relpath rm single_rel_types loader_name data_loader)
           (\<lambda>(X, Y, ds_n, ds_tc, ds_tf).
     bindE (liftE (shape_at X 1)) (\<lambda>indim.
     bindE (liftE (torch_max Y)) (\<lambda>mx.
     bindE (liftE (torch_min Y)) (\<lambda>mn.
     bindE (if mx = 1 \<and> mn = 0 then returnE () else raiseE (AssertionError mx mn)) (\<lambda>_.
     bindE (logE (PrintFile (meta_file rm))) (\<lambda>_.
     bindE (liftE (shape_at X 0)) (\<lambda>n.
     bindE (liftE (epochs_fn n)) (\<lambda>eps.
     bindE (callE (CallSplitData loader_name 41) (split_data data_loader X Y 41))
           (\<lambda>(trainloader, validloader, testloader).
     bindE (callE (CallBuildModel mname (int indim)) (\<lambda>w. (build_model mname (int indim), w)))
           (\<lambda>my_model.
     try_reraise
       (train_and_test T train_input_disturber debug_test_df cuda rm mname loader_name run
          eps ds_n ds_tc ds_tf my_model trainloader validloader testloader results)
       (logE (PrintUnexpected mname)))))))))))))))"

text \<open>
  \<^verbatim>\<open>itertools.product(models, data_loaders, range(n_runs))\<close>: the last component varies
  fastest; iterating a dictionary yields its keys.
\<close>

definition combos :: "string list \<Rightarrow> string list \<Rightarrow> int \<Rightarrow> (string \<times> string \<times> nat) list" where
  "combos models loader_names n_runs =
     concat (map (\<lambda>m. concat (map (\<lambda>l. map (\<lambda>r. (m, l, r)) [0..<nat n_runs]) loader_names))
                 models)"

text \<open>The \<^verbatim>\<open>for\<close> loop: an exception in one iteration ends the loop.\<close>

fun learn_loop ::
  "('c \<Rightarrow> 'r \<Rightarrow> ('r, 'w) prog) \<Rightarrow> 'c list \<Rightarrow> 'r \<Rightarrow> ('r, 'w) prog" where
  "learn_loop body [] results = returnE results"
| "learn_loop body (c # cs) results = bindE (body c results) (learn_loop body cs)"

text \<open>
  \<^verbatim>\<open>learn_rel\<close>. \<open>rel_filter_opt\<close> is \<open>None\<close> for the default \<^verbatim>\<open>rel_filter=None\<close>; the
  trainer collaborator \<open>T\<close> is the module \<^verbatim>\<open>evalclass\<close>.
\<close>

definition empty_result :: "rel_meta \<Rightarrow> ('df, 'mt) learn_result" where
  "empty_result rm =
     \<lparr>rel_name = meta_name rm, rel_type = meta_type rm, res_pos_exs = Some (meta_cnt rm),
      emb_model_results = []\<rparr>"

definition learn_rel ::
  "('p, 't, 'df, 'mt, 'd, 'w) trainer_api
     \<Rightarrow> path \<Rightarrow> rel_meta \<Rightarrow> (string, ('x, 'p, 'w) data_loader) dict \<Rightarrow> string list
     \<Rightarrow> (nat \<Rightarrow> error + int) \<Rightarrow> (rel_meta \<Rightarrow> bool) option \<Rightarrow> string list \<Rightarrow> int
     \<Rightarrow> 'd option \<Rightarrow> bool \<Rightarrow> bool
     \<Rightarrow> (('df, 'mt) learn_result, 'w) prog" where
  "learn_rel T relpath rm data_loaders single_rel_types epochs_fn rel_filter_opt models n_runs
       train_input_disturber debug_test_df cuda =
     (if meta_cnt rm < 75 then
        bindE (logE (PrintTooFew (meta_name rm) (meta_type rm))) (\<lambda>_. returnE (empty_result rm))
      else if (case rel_filter_opt of None \<Rightarrow> False | Some f \<Rightarrow> \<not> f rm) then
        bindE (logE (PrintNotInFilter (meta_name rm) (meta_type rm)))
              (\<lambda>_. returnE (empty_result rm))
      else
        bindE (logE (PrintTraining n_runs)) (\<lambda>_.
        bindE (learn_loop
                 (learn_iter relpath rm data_loaders single_rel_types epochs_fn T
                    train_input_disturber debug_test_df cuda)
                 (combos models (map fst data_loaders) n_runs) [])
              (\<lambda>results.
        returnE \<lparr>rel_name = meta_name rm, rel_type = meta_type rm,
                 res_pos_exs = Some (meta_cnt rm), emb_model_results = results\<rparr>)))"

text \<open>The events that are calls to a data loader, and those that build a model.\<close>

fun is_loader_call :: "event \<Rightarrow> bool" where
  "is_loader_call (CallGenerateRandomPairData _ _) = True"
| "is_loader_call (CallLoadSingleData _ _) = True"
| "is_loader_call (CallLoadPairData _ _) = True"
| "is_loader_call (CallSplitData _ _) = True"
| "is_loader_call _ = False"


text \<open>The lines \<^verbatim>\<open>run %d on model %s with vectors %s\<close> that open each iteration.\<close>

fun is_print_run :: "event \<Rightarrow> bool" where
  "is_print_run (PrintRun _ _ _) = True"
| "is_print_run _ = False"


section \<open>Example collaborators\<close>

text \<open>
  A data loader that answers every request with a fixed dataset carrying the given labels,
  a trainer whose metrics are readings of a counter, and a relation \<^verbatim>\<open>noun_plural\<close>
  with a given number of positive examples. The world is a counter of the calls made.
\<close>

definition example_loader :: "real list \<Rightarrow> (unit, unit, nat) data_loader" where
  "example_loader labels =
     \<lparr>generate_random_pair_data =
        (\<lambda>n w. (Inr (Tensor [nat n, 600] (), labels, n, 2 * n, n), Suc w)),
      load_single_data =
        (\<lambda>p w. (Inr (Tensor [100, 300] (), labels, 100, 100, 90), Suc w)),
      load_pair_data =
        (\<lambda>p w. (Inr (Tensor [100, 600] (), labels, 100, 200, 150), Suc w)),
      split_data = (\<lambda>X Y seed w. (Inr ((), (), ()), Suc w))\<rparr>"

definition example_trainer :: "(unit, model, nat list, nat, unit, nat) trainer_api" where
  "example_trainer =
     \<lparr>tr_new = (\<lambda>m c w. (Inr m, Suc w)),
      tr_test = (\<lambda>t p w. (Inr w, Suc w)),
      tr_train = (\<lambda>t tp vp es d w. (Inr (), w + length es)),
      tr_test_df = (\<lambda>t p dbg w. (Inr [w, w], Suc w)),
      tr_test_random = (\<lambda>t p w. (Inr w, Suc w)),
      tr_df = (\<lambda>t w. [w])\<rparr>"

definition example_meta :: "int \<Rightarrow> rel_meta" where
  "example_meta c =
     \<lparr>meta_type = ''noun'', meta_name = ''plural'', meta_cnt = c,
      meta_file = ''noun_plural__100.txt''\<rparr>"


section \<open>File names\<close>

text \<open>
  \<^verbatim>\<open>str.find\<close> (the index of the first occurrence, or \<open>-1\<close>), slicing \<^verbatim>\<open>s[a:b]\<close>
  (a negative index counts from the end, and indices are clipped to the string), and
  \<^verbatim>\<open>int(s)\<close> on a string. A character is a code point below 256. For \<^verbatim>\<open>int\<close>, white
  space is the code points 9 to 13, 32, 133 and 160 and is dropped at both ends; one sign
  is allowed; the digits are \<^verbatim>\<open>0\<close> to \<^verbatim>\<open>9\<close> and may be separated by single underscores;
  and a text of more than 4300 digits is refused.
\<close>

fun find_at :: "string \<Rightarrow> string \<Rightarrow> nat \<Rightarrow> int" where
  "find_at sub [] k = (if sub = [] then int k else - 1)"
| "find_at sub (c # cs) k =
     (if take (length sub) (c # cs) = sub then int k else find_at sub cs (Suc k))"

definition str_find :: "string \<Rightarrow> string \<Rightarrow> int" where
  "str_find s sub = find_at sub s 0"

definition py_slice :: "'a list \<Rightarrow> int \<Rightarrow> int \<Rightarrow> 'a list" where
  "py_slice s a b =
     (let n = int (length s);
          a' = (if a < 0 then max 0 (a + n) else min a n);
          b' = (if b < 0 then max 0 (b + n) else min b n)
      in take (nat (b' - a')) (drop (nat a') s))"

definition is_digit :: "char \<Rightarrow> bool" where
  "is_digit c = (c \<in> set ''0123456789'')"

definition digit_val :: "char \<Rightarrow> nat" where
  "digit_val c = of_char c - 48"

definition is_space :: "char \<Rightarrow> bool" where
  "is_space c =
     (let k = (of_char c :: nat) in (9 \<le> k \<and> k \<le> 13) \<or> k = 32 \<or> k = 133 \<or> k = 160)"

fun digits_value :: "nat \<Rightarrow> string \<Rightarrow> nat option" where
  "digits_value acc [] = Some acc"
| "digits_value acc (c # cs) =
     (if is_digit c then digits_value (10 * acc + digit_val c) cs
      else if c = CHR ''_'' then
        (case cs of
           [] \<Rightarrow> None
         | d # ds \<Rightarrow> if is_digit d then digits_value (10 * acc + digit_val d) ds else None)
      else None)"

definition parse_nat :: "string \<Rightarrow> nat option" where
  "parse_nat s =
     (case s of [] \<Rightarrow> None
      | c # cs \<Rightarrow> if is_digit c then digits_value (digit_val c) cs else None)"

definition strip :: "string \<Rightarrow> string" where
  "strip s = dropWhile is_space (rev (dropWhile is_space (rev s)))"

definition py_int :: "string \<Rightarrow> error + int" where
  "py_int s =
     (if 4300 < length (filter is_digit s) then Inl ValueError
      else case strip s of
        [] \<Rightarrow> Inl ValueError
      | c # cs \<Rightarrow>
          if c = CHR ''-'' then
            (case parse_nat cs of None \<Rightarrow> Inl ValueError | Some n \<Rightarrow> Inr (- int n))
          else if c = CHR ''+'' then
            (case parse_nat cs of None \<Rightarrow> Inl ValueError | Some n \<Rightarrow> Inr (int n))
          else
            (case parse_nat (c # cs) of None \<Rightarrow> Inl ValueError | Some n \<Rightarrow> Inr (int n)))"

text \<open>
  The text that \<^verbatim>\<open>load_rels_meta\<close> hands to \<^verbatim>\<open>int\<close>, and the parsing of one file
  name (the body of its loop).
\<close>

definition count_text :: "string \<Rightarrow> string" where
  "count_text f = py_slice f (str_find f ''__'' + 2) (str_find f ''.txt'')"

definition parse_rel_file :: "string \<Rightarrow> error + rel_meta" where
  "parse_rel_file f =
     (let prefix_end = str_find f ''_'';
          rel_end = str_find f ''__'';
          ext_start = str_find f ''.txt'';
          rel_type = py_slice f 0 prefix_end;
          rel_name = py_slice f (prefix_end + 1) rel_end
      in case py_int (py_slice f (rel_end + 2) ext_start) of
           Inl e \<Rightarrow> Inl e
         | Inr rel_ex_cnt \<Rightarrow>
             Inr \<lparr>meta_type = rel_type, meta_name = rel_name, meta_cnt = rel_ex_cnt,
                  meta_file = f\<rparr>)"

fun rels_of_files :: "string list \<Rightarrow> error + rel_meta list" where
  "rels_of_files [] = Inr []"
| "rels_of_files (f # fs) =
     (case parse_rel_file f of
        Inl e \<Rightarrow> Inl e
      | Inr rel \<Rightarrow> (case rels_of_files fs of Inl e \<Rightarrow> Inl e | Inr rels \<Rightarrow> Inr (rel # rels)))"

section \<open>The file system\<close>

text \<open>
  A path is the list of its components; every name the module joins to a path is one
  component. The file system maps paths to nodes; it is a list in which the first entry
  for a path is the current one, and the root is always a directory. The order in which
  \<^verbatim>\<open>os.listdir\<close> returns the names is not specified: it is a parameter \<open>ls\<close>, a
  reordering applied to the names of a directory.

  \<^verbatim>\<open>meta.json\<close> holds the eight scalar fields; the other four files hold the text that
  the serialiser produced.
\<close>

record meta_json =
  j_model :: string
  j_i :: int
  j_emb :: string
  j_epochs :: int
  j_pos_exs :: int
  j_dataset_size :: int
  j_dataset_tok_cnt :: int
  j_dataset_tok_found :: int

datatype content = MetaJson meta_json | Text string

datatype node = Dir | File content

type_synonym filesystem = "(path \<times> node) list"

definition fs_lookup :: "filesystem \<Rightarrow> path \<Rightarrow> node option" where
  "fs_lookup fs p = (if p = [] then Some Dir else map_of fs p)"

definition isdir :: "filesystem \<Rightarrow> path \<Rightarrow> bool" where
  "isdir fs p = (fs_lookup fs p = Some Dir)"

definition isfile :: "filesystem \<Rightarrow> path \<Rightarrow> bool" where
  "isfile fs p = (case fs_lookup fs p of Some (File _) \<Rightarrow> True | _ \<Rightarrow> False)"

definition exists_path :: "filesystem \<Rightarrow> path \<Rightarrow> bool" where
  "exists_path fs p = (fs_lookup fs p \<noteq> None)"

definition children :: "filesystem \<Rightarrow> path \<Rightarrow> string list" where
  "children fs p = remdups (map last (filter (\<lambda>q. q \<noteq> [] \<and> butlast q = p) (map fst fs)))"

definition listdir ::
  "(string list \<Rightarrow> string list) \<Rightarrow> filesystem \<Rightarrow> path \<Rightarrow> error + string list" where
  "listdir ls fs p =
     (case fs_lookup fs p of
        None \<Rightarrow> Inl FileNotFoundError
      | Some (File _) \<Rightarrow> Inl NotADirectoryError
      | Some Dir \<Rightarrow> Inr (ls (children fs p)))"

fun makedirs_from :: "filesystem \<Rightarrow> path \<Rightarrow> path \<Rightarrow> error + filesystem" where
  "makedirs_from fs done [] = Inr fs"
| "makedirs_from fs done (n # rest) =
     (case fs_lookup fs (done @ [n]) of
        None \<Rightarrow> makedirs_from ((done @ [n], Dir) # fs) (done @ [n]) rest
      | Some Dir \<Rightarrow>
          if rest = [] then Inl FileExistsError else makedirs_from fs (done @ [n]) rest
      | Some (File _) \<Rightarrow> Inl (if rest = [] then FileExistsError else NotADirectoryError))"

definition makedirs :: "filesystem \<Rightarrow> path \<Rightarrow> error + filesystem" where
  "makedirs fs p = makedirs_from fs [] p"

definition write_file :: "filesystem \<Rightarrow> path \<Rightarrow> content \<Rightarrow> error + filesystem" where
  "write_file fs p c =
     (if p = [] then Inl IsADirectoryError
      else case fs_lookup fs (butlast p) of
             None \<Rightarrow> Inl FileNotFoundError
           | Some (File _) \<Rightarrow> Inl NotADirectoryError
           | Some Dir \<Rightarrow>
               (case fs_lookup fs p of
                  Some Dir \<Rightarrow> Inl IsADirectoryError
                | _ \<Rightarrow> Inr ((p, File c) # fs)))"

definition read_file :: "filesystem \<Rightarrow> path \<Rightarrow> error + content" where
  "read_file fs p =
     (case fs_lookup fs p of
        None \<Rightarrow> Inl FileNotFoundError
      | Some Dir \<Rightarrow> Inl IsADirectoryError
      | Some (File c) \<Rightarrow> Inr c)"

text \<open>\<^verbatim>\<open>load_rels_meta\<close>, returning the rows of the data frame.\<close>

definition load_rels_meta ::
  "(string list \<Rightarrow> string list) \<Rightarrow> filesystem \<Rightarrow> path \<Rightarrow> error + rel_meta list" where
  "load_rels_meta ls fs relpath =
     (case listdir ls fs relpath of
        Inl e \<Rightarrow> Inl e
      | Inr names \<Rightarrow> rels_of_files (filter (\<lambda>f. isfile fs (relpath @ [f])) names))"

section \<open>Storing and loading results\<close>

text \<open>
  The serialisers are external (\<^verbatim>\<open>DataFrame.to_csv\<close>, \<^verbatim>\<open>pandas.read_csv\<close>,
  \<^verbatim>\<open>json.dump\<close>, \<^verbatim>\<open>json.load\<close>): they are parameters.
\<close>

record ('df, 'mt) codecs =
  to_csv :: "'df \<Rightarrow> string"
  read_csv :: "string \<Rightarrow> error + 'df"
  json_dump :: "'mt \<Rightarrow> string"
  json_load :: "string \<Rightarrow> error + 'mt"

text \<open>\<^verbatim>\<open>'run_%02d' % i\<close>.\<close>

definition digit_char :: "nat \<Rightarrow> char" where
  "digit_char d = char_of (48 + d)"

fun decimal :: "nat \<Rightarrow> string" where
  "decimal n = (if n < 10 then [digit_char n] else decimal (n div 10) @ [digit_char (n mod 10)])"

definition format_02d :: "int \<Rightarrow> string" where
  "format_02d k =
     (if k < 0 then CHR ''-'' # decimal (nat (- k))
      else if k < 10 then CHR ''0'' # decimal (nat k)
      else decimal (nat k))"

definition run_dir :: "int \<Rightarrow> string" where
  "run_dir k = ''run_'' @ format_02d k"

text \<open>
  Sequencing of steps that may raise, and a \<^verbatim>\<open>for\<close> loop over a list that carries a
  state. When a step raises, the files written before are not tracked.
\<close>

definition bindR :: "error + 'a \<Rightarrow> ('a \<Rightarrow> error + 'b) \<Rightarrow> error + 'b" where
  "bindR m f = (case m of Inl e \<Rightarrow> Inl e | Inr a \<Rightarrow> f a)"

fun for_each :: "('a \<Rightarrow> 's \<Rightarrow> error + 's) \<Rightarrow> 'a list \<Rightarrow> 's \<Rightarrow> error + 's" where
  "for_each body [] s = Inr s"
| "for_each body (x # xs) s = bindR (body x s) (for_each body xs)"

text \<open>\<^verbatim>\<open>_store_embrun_result\<close> and \<^verbatim>\<open>store_learn_result\<close>.\<close>

definition store_embrun_result ::
  "('df, 'mt) codecs \<Rightarrow> path \<Rightarrow> ('df, 'mt) embrun \<Rightarrow> filesystem \<Rightarrow> error + filesystem" where
  "store_embrun_result C emb_dir emb_result fs =
     (let odir = emb_dir @ [model emb_result, run_dir (run_i emb_result)];
          meta = \<lparr>j_model = model emb_result, j_i = run_i emb_result, j_emb = emb emb_result,
                  j_epochs = epochs emb_result, j_pos_exs = pos_exs emb_result,
                  j_dataset_size = dataset_size emb_result,
                  j_dataset_tok_cnt = dataset_tok_cnt emb_result,
                  j_dataset_tok_found = dataset_tok_found emb_result\<rparr>
      in
      bindR (if \<not> exists_path fs odir then makedirs fs odir else Inr fs) (\<lambda>fs.
      bindR (write_file fs (odir @ [''meta.json'']) (MetaJson meta)) (\<lambda>fs.
      bindR (write_file fs (odir @ [''train.tsv'']) (Text (to_csv C (trainer_df emb_result))))
        (\<lambda>fs.
      bindR (write_file fs (odir @ [''test.tsv'']) (Text (to_csv C (test_df emb_result))))
        (\<lambda>fs.
      bindR (write_file fs (odir @ [''pretrain-test.json''])
               (Text (json_dump C (pretrain_test_result emb_result)))) (\<lambda>fs.
      write_file fs (odir @ [''randomvec-test.json''])
        (Text (json_dump C (test_random_result emb_result)))))))))"

definition store_learn_result ::
  "('df, 'mt) codecs \<Rightarrow> path \<Rightarrow> ('df, 'mt) learn_result \<Rightarrow> filesystem
     \<Rightarrow> error + filesystem" where
  "store_learn_result C dir_path learn_result fs =
     (let rel_path = dir_path @ [rel_type learn_result, rel_name learn_result] in
      for_each
        (\<lambda>(emb_name, runs). for_each (store_embrun_result C (rel_path @ [emb_name])) runs)
        (emb_model_results learn_result) fs)"

text \<open>\<^verbatim>\<open>_load_embrun_result\<close>.\<close>

definition read_text :: "filesystem \<Rightarrow> path \<Rightarrow> error + string" where
  "read_text fs p =
     bindR (read_file fs p) (\<lambda>c. case c of Text s \<Rightarrow> Inr s | MetaJson _ \<Rightarrow> Inl ValueError)"

definition load_embrun_result ::
  "('df, 'mt) codecs \<Rightarrow> filesystem \<Rightarrow> path \<Rightarrow> error + ('df, 'mt) embrun" where
  "load_embrun_result C fs emb_dir =
     bindR (read_file fs (emb_dir @ [''meta.json''])) (\<lambda>c.
     bindR (case c of MetaJson j \<Rightarrow> Inr j | Text _ \<Rightarrow> Inl ValueError) (\<lambda>result.
     bindR (bindR (read_text fs (emb_dir @ [''train.tsv''])) (read_csv C)) (\<lambda>train.
     bindR (bindR (read_text fs (emb_dir @ [''test.tsv''])) (read_csv C)) (\<lambda>test.
     bindR (bindR (read_text fs (emb_dir @ [''pretrain-test.json''])) (json_load C)) (\<lambda>pre.
     bindR (bindR (read_text fs (emb_dir @ [''randomvec-test.json''])) (json_load C)) (\<lambda>rnd.
     Inr \<lparr>model = j_model result, run_i = j_i result, emb = j_emb result,
          epochs = j_epochs result, pos_exs = j_pos_exs result,
          dataset_size = j_dataset_size result,
          dataset_tok_cnt = j_dataset_tok_cnt result,
          dataset_tok_found = j_dataset_tok_found result,
          trainer_df = train, pretrain_test_result = pre, test_df = test,
          test_random_result = rnd\<rparr>))))))"

text \<open>
  \<^verbatim>\<open>load_learn_result\<close>: the names in a directory that are directories;
  \<^verbatim>\<open>not pos_exs\<close> holds for \<^verbatim>\<open>None\<close> and for \<open>0\<close>; then the three nested iterations,
  over the runs of a model, the models of an embedding and the embeddings.
\<close>

definition subdirs ::
  "(string list \<Rightarrow> string list) \<Rightarrow> filesystem \<Rightarrow> path \<Rightarrow> error + string list" where
  "subdirs ls fs p = bindR (listdir ls fs p) (\<lambda>names. Inr (filter (\<lambda>n. isdir fs (p @ [n])) names))"

definition falsy :: "int option \<Rightarrow> bool" where
  "falsy v = (v = None \<or> v = Some 0)"

definition load_run ::
  "('df, 'mt) codecs \<Rightarrow> filesystem \<Rightarrow> path \<Rightarrow> string
     \<Rightarrow> ('df, 'mt) embrun list \<times> int option \<Rightarrow> error + ('df, 'mt) embrun list \<times> int option"
  where
  "load_run C fs embmodel_dir run st =
     (case st of (emb_model_res, pos) \<Rightarrow>
      bindR (load_embrun_result C fs (embmodel_dir @ [run])) (\<lambda>embrun_res.
      Inr (emb_model_res @ [embrun_res],
           if falsy pos then Some (pos_exs embrun_res) else pos)))"

definition load_model ::
  "('df, 'mt) codecs \<Rightarrow> (string list \<Rightarrow> string list) \<Rightarrow> filesystem \<Rightarrow> path \<Rightarrow> string
     \<Rightarrow> ('df, 'mt) embrun list \<times> int option \<Rightarrow> error + ('df, 'mt) embrun list \<times> int option"
  where
  "load_model C ls fs emb_dir mname st =
     bindR (subdirs ls fs (emb_dir @ [mname])) (\<lambda>runs.
     for_each (load_run C fs (emb_dir @ [mname])) runs st)"

definition load_emb ::
  "('df, 'mt) codecs \<Rightarrow> (string list \<Rightarrow> string list) \<Rightarrow> filesystem \<Rightarrow> path \<Rightarrow> string
     \<Rightarrow> (string, ('df, 'mt) embrun list) dict \<times> int option
     \<Rightarrow> error + (string, ('df, 'mt) embrun list) dict \<times> int option"
  where
  "load_emb C ls fs rel_dir emb_name st =
     (case st of (results, pos) \<Rightarrow>
      bindR (subdirs ls fs (rel_dir @ [emb_name])) (\<lambda>models.
      bindR (for_each (load_model C ls fs (rel_dir @ [emb_name])) models ([], pos))
        (\<lambda>(emb_model_res, pos').
      Inr (dict_set results emb_name emb_model_res, pos'))))"

definition load_learn_result ::
  "('df, 'mt) codecs \<Rightarrow> (string list \<Rightarrow> string list) \<Rightarrow> filesystem \<Rightarrow> path \<Rightarrow> string
     \<Rightarrow> string \<Rightarrow> error + ('df, 'mt) learn_result" where
  "load_learn_result C ls fs dir_path rtype rname =
     (let rel_dir = dir_path @ [rtype, rname] in
      bindR (subdirs ls fs rel_dir) (\<lambda>embs.
      bindR (for_each (load_emb C ls fs rel_dir) embs ([], None)) (\<lambda>(results, pos).
      Inr \<lparr>rel_name = rname, rel_type = rtype, res_pos_exs = pos,
           emb_model_results = results\<rparr>)))"

section \<open>Specification predicates and examples\<close>

text \<open>
  The naming convention \<^verbatim>\<open>TYPE_NAME__COUNT.txt\<close> in its most liberal reading, and the
  record that \<^verbatim>\<open>load_rels_meta\<close> builds for a file name once the count is parsed.
\<close>

definition follows_convention :: "string \<Rightarrow> bool" where
  "follows_convention f =
     (\<exists>ty nm ds. f = ty @ ''_'' @ nm @ ''__'' @ ds @ ''.txt'' \<and> ds \<noteq> [] \<and>
                 (\<forall>c\<in>set ds. is_digit c))"

definition rel_of_file :: "string \<Rightarrow> int \<Rightarrow> rel_meta" where
  "rel_of_file f c =
     \<lparr>meta_type = py_slice f 0 (str_find f ''_''),
      meta_name = py_slice f (str_find f ''_'' + 1) (str_find f ''__''),
      meta_cnt = c, meta_file = f\<rparr>"




text \<open>
  Serialisers for tables and metrics that are text already, two runs with given counts of
  positive examples, a result, and the directory tree in which it is stored.
\<close>

definition text_codecs :: "(string, string) codecs" where
  "text_codecs =
     \<lparr>to_csv = (\<lambda>t. t), read_csv = Inr, json_dump = (\<lambda>t. t), json_load = Inr\<rparr>"

definition example_runs :: "int \<Rightarrow> int \<Rightarrow> (string, string) embrun list" where
  "example_runs p0 p1 =
     [\<lparr>model = ''logreg'', run_i = 0, emb = ''glove'', epochs = 3,
        pos_exs = p0, dataset_size = 100, dataset_tok_cnt = 200,
        dataset_tok_found = 150, trainer_df = ''eeeeeeeee'',
        pretrain_test_result = ''aaa'', test_df = ''rrrrrrr'',
        test_random_result = ''zzzzzzzz''\<rparr>,
      \<lparr>model = ''logreg'', run_i = 1, emb = ''glove'', epochs = 3,
        pos_exs = p1, dataset_size = 100, dataset_tok_cnt = 200,
        dataset_tok_found = 150, trainer_df = ''eeeeeeeeeeeeeeeeee'',
        pretrain_test_result = ''aaaaaaaaaaaa'', test_df = ''rrrrrrrrrrrrrrrr'',
        test_random_result = ''zzzzzzzzzzzzzzzzz''\<rparr>]"




text \<open>
  The directories that \<^verbatim>\<open>os.makedirs\<close> visits below a directory, the content of
  \<^verbatim>\<open>meta.json\<close> for a run, and the five files of a run directory, the last written
  first.
\<close>

fun prefixes_from :: "path \<Rightarrow> path \<Rightarrow> path list" where
  "prefixes_from d [] = []"
| "prefixes_from d (n # rest) = (d @ [n]) # prefixes_from (d @ [n]) rest"





section \<open>Properties of the model factory\<close>

text \<open>
  What the factory does on every input: a name outside the six known ones fails with the
  \<open>TypeError\<close> of the message's format, nn2 and nn3 with an input dimensionality other
  than 300 or 600 fail with the explicit exception, and a model that is returned has the
  architecture fixed for its name.
\<close>

lemma build_model_cases:
  "(name \<notin> set known_models \<longrightarrow> build_model name indim = Inl TypeError) \<and>
   (name \<in> {''nn2'', ''nn3''} \<and> indim \<noteq> 300 \<and> indim \<noteq> 600 \<longrightarrow>
      build_model name indim = Inl (Exception ''Unexpected input dimension'')) \<and>
   (\<forall>m. build_model name indim = Inr m \<longrightarrow>
      name \<in> set known_models \<and>
      (name = ''logreg'' \<longrightarrow> m = LogisticRegression indim) \<and>
      (name = ''nn1'' \<longrightarrow> m = NNBiClassifier indim [indim] [0.5]) \<and>
      (name = ''nn2'' \<longrightarrow> (indim = 600 \<or> indim = 300) \<and>
         m = NNBiClassifier indim (if indim = 600 then [750, 400] else [400, 150]) [0.5, 0.5]) \<and>
      (name = ''nn3'' \<longrightarrow> (indim = 600 \<or> indim = 300) \<and>
         m = NNBiClassifier indim
               (if indim = 600 then [750, 500, 250] else [400, 200, 100]) [0.5, 0.5, 0.5]) \<and>
      (name = ''alwaysT'' \<longrightarrow> m = DummyBiClassifier indim [0.01, 0.99]) \<and>
      (name = ''alwaysF'' \<longrightarrow> m = DummyBiClassifier indim [0.99, 0.01]))"
  by (simp add: build_model_def known_models_def)

text \<open>
  C9. For the unknown model name \<^verbatim>\<open>svm\<close> the factory does not raise the explicit
  exception that its last branch constructs: formatting the message with \<^verbatim>\<open>%d\<close> and a
  string raises \<open>TypeError\<close> first, so no \<open>Exception\<close> with a message about the model name
  is ever raised.
\<close>

theorem build_model_unknown_name:
  "build_model ''svm'' 600 = Inl TypeError \<and>
   (\<forall>msg. build_model ''svm'' 600 \<noteq> Inl (Exception msg))"
  by (simp add: build_model_def)

section \<open>The program monad\<close>

lemma bindE_Inr:
  "bindE m f s = (Inr b, s') \<longleftrightarrow> (\<exists>a s1. m s = (Inr a, s1) \<and> f a s1 = (Inr b, s'))"
  by (auto simp: bindE_def split: prod.splits sum.splits)

lemma callE_Inr:
  "callE ev f s = (Inr a, s') \<longleftrightarrow>
     (\<exists>w'. f (world s) = (Inr a, w') \<and> s' = s\<lparr>world := w', trace := trace s @ [ev]\<rparr>)"
  by (auto simp: callE_def split: prod.splits)

lemma logE_Inr: "logE ev s = (Inr a, s') \<longleftrightarrow> s' = s\<lparr>trace := trace s @ [ev]\<rparr>"
  by (auto simp: logE_def)

lemma liftE_Inr: "liftE r s = (Inr a, s') \<longleftrightarrow> r = Inr a \<and> s' = s"
  by (auto simp: liftE_def)

lemma try_reraise_Inr: "try_reraise body h s = (Inr a, s') \<longleftrightarrow> body s = (Inr a, s')"
  by (auto simp: try_reraise_def split: prod.splits sum.splits)

lemma load_data_Inr:
  "load_data relpath rm srt l dl s = (Inr d, s') \<Longrightarrow>
     \<exists>ev. trace s' = trace s @ [ev] \<and> is_loader_call ev"
  by (auto simp: load_data_def Let_def callE_Inr split: if_splits)

lemma train_and_test_Inr:
  "train_and_test T dis dbg cuda rm m l run eps ds_n ds_tc ds_tf mdl trl vl tsl acc s = (Inr acc', s')
   \<Longrightarrow> \<exists>r evs. acc' = dict_set acc l (dict_get acc l @ [r]) \<and> model r = m \<and> emb r = l \<and>
          run_i r = int run \<and> pos_exs r = meta_cnt rm \<and> epochs r = eps \<and>
          trace s' = trace s @ evs \<and> (\<forall>ev\<in>set evs. \<not> is_print_run ev)"
  unfolding train_and_test_def
  by (auto simp: bindE_Inr callE_Inr logE_Inr returnE_def)

lemma loader_not_print: "is_loader_call ev \<Longrightarrow> \<not> is_print_run ev"
  by (cases ev) auto

lemma learn_iter_Inr:
  "learn_iter relpath rm dls srt efn T dis dbg cuda (m, l, run) acc s = (Inr acc', s')
   \<Longrightarrow> \<exists>r evs. acc' = dict_set acc l (dict_get acc l @ [r]) \<and> model r = m \<and> emb r = l \<and>
          run_i r = int run \<and> pos_exs r = meta_cnt rm \<and>
          trace s' = trace s @ PrintRun run m l # evs \<and> (\<forall>ev\<in>set evs. \<not> is_print_run ev)"
  unfolding learn_iter_def
  apply (clarsimp simp: bindE_Inr callE_Inr logE_Inr liftE_Inr try_reraise_Inr returnE_def raiseE_def
       split: if_splits)
  apply (drule load_data_Inr)
  apply (drule train_and_test_Inr)
  apply clarsimp
  apply (rule exI)
  apply (intro conjI)
       apply (rule refl)
      apply (simp_all add: loader_not_print)
  done


lemma dict_get_set: "dict_get (dict_set d k v) k' = (if k' = k then v else dict_get d k')"
  by (simp add: dict_get_def dict_set_def AList.update_conv')

lemma keys_dict_set: "fst ` set (dict_set d k v) = insert k (fst ` set d)"
  by (simp add: dict_set_def AList.dom_update)



lemma learn_loop_runs:
  "learn_loop (learn_iter relpath rm dls srt efn T dis dbg cuda) cs acc s = (Inr acc', s') \<Longrightarrow>
   map (\<lambda>r. (model r, emb r, run_i r)) (dict_get acc' l) =
     map (\<lambda>r. (model r, emb r, run_i r)) (dict_get acc l) @
     map (\<lambda>(m, l', r). (m, l', int r)) (filter (\<lambda>(m, l', r). l' = l) cs)"
proof (induction cs arbitrary: acc s)
  case Nil
  then show ?case by (simp add: returnE_def)
next
  case (Cons c cs)
  obtain m l0 run where c: "c = (m, l0, run)" by (cases c) auto
  from Cons.prems obtain acc1 s1 where
    it: "learn_iter relpath rm dls srt efn T dis dbg cuda (m, l0, run) acc s = (Inr acc1, s1)" and
    rest: "learn_loop (learn_iter relpath rm dls srt efn T dis dbg cuda) cs acc1 s1 = (Inr acc', s')"
    by (auto simp: bindE_Inr c)
  from learn_iter_Inr [OF it] obtain r where
    r: "acc1 = dict_set acc l0 (dict_get acc l0 @ [r])" "model r = m" "emb r = l0"
       "run_i r = int run"
    by blast
  show ?case
    using Cons.IH [OF rest] r by (simp add: c dict_get_set)
qed

lemma learn_loop_keys:
  "learn_loop (learn_iter relpath rm dls srt efn T dis dbg cuda) cs acc s = (Inr acc', s') \<Longrightarrow>
   fst ` set acc' = fst ` set acc \<union> (\<lambda>(m, l, r). l) ` set cs"
proof (induction cs arbitrary: acc s)
  case Nil
  then show ?case by (simp add: returnE_def)
next
  case (Cons c cs)
  obtain m l0 run where c: "c = (m, l0, run)" by (cases c) auto
  from Cons.prems obtain acc1 s1 where
    it: "learn_iter relpath rm dls srt efn T dis dbg cuda (m, l0, run) acc s = (Inr acc1, s1)" and
    rest: "learn_loop (learn_iter relpath rm dls srt efn T dis dbg cuda) cs acc1 s1 = (Inr acc', s')"
    by (auto simp: bindE_Inr c)
  from learn_iter_Inr [OF it] obtain r where
    r: "acc1 = dict_set acc l0 (dict_get acc l0 @ [r])"
    by blast
  show ?case
    using Cons.IH [OF rest] r by (simp add: c keys_dict_set)
qed


lemma learn_loop_trace:
  "learn_loop (learn_iter relpath rm dls srt efn T dis dbg cuda) cs acc s = (Inr acc', s') \<Longrightarrow>
   \<exists>evs. trace s' = trace s @ evs \<and>
         filter is_print_run evs = map (\<lambda>(m, l, r). PrintRun r m l) cs"
proof (induction cs arbitrary: acc s)
  case Nil
  then show ?case by (simp add: returnE_def)
next
  case (Cons c cs)
  obtain m l0 run where c: "c = (m, l0, run)" by (cases c) auto
  from Cons.prems(1) obtain acc1 s1 where
    it: "learn_iter relpath rm dls srt efn T dis dbg cuda (m, l0, run) acc s = (Inr acc1, s1)" and
    rest: "learn_loop (learn_iter relpath rm dls srt efn T dis dbg cuda) cs acc1 s1 = (Inr acc', s')"
    by (auto simp: bindE_Inr c)
  from learn_iter_Inr [OF it] obtain evs1 where
    e1: "trace s1 = trace s @ PrintRun run m l0 # evs1" "\<forall>ev\<in>set evs1. \<not> is_print_run ev"
    by blast
  from Cons.IH [OF rest] obtain evs2 where
    e2: "trace s' = trace s1 @ evs2"
        "filter is_print_run evs2 = map (\<lambda>(m, l, r). PrintRun r m l) cs"
    by blast
  have "filter is_print_run evs1 = []"
    using e1(2) by (simp add: filter_empty_conv)
  then have "trace s' = trace s @ (PrintRun run m l0 # evs1 @ evs2) \<and>
        filter is_print_run (PrintRun run m l0 # evs1 @ evs2) =
          map (\<lambda>(m, l, r). PrintRun r m l) (c # cs)"
    using e1 e2 by (simp add: c)
  then show ?case by blast
qed

lemma filter_inner_combos:
  "distinct ls \<Longrightarrow>
   filter (\<lambda>(m', l', r). l' = l) (concat (map (\<lambda>l'. map (\<lambda>r. (m, l', r)) rs) ls)) =
     (if l \<in> set ls then map (\<lambda>r. (m, l, r)) rs else [])"
  by (induction ls) (auto simp: filter_empty_conv)

lemma filter_combos:
  "distinct ls \<Longrightarrow>
   filter (\<lambda>(m, l', r). l' = l) (combos models ls n) =
     (if l \<in> set ls then concat (map (\<lambda>m. map (\<lambda>r. (m, l, r)) [0..<nat n]) models) else [])"
  by (induction models) (simp_all add: combos_def filter_inner_combos)

section \<open>Properties of the orchestrator\<close>

lemmas run_defs =
  learn_rel_def example_meta_def example_loader_def example_trainer_def combos_def
  bindE_def logE_def callE_def liftE_def returnE_def raiseE_def try_reraise_def
  learn_iter_def train_and_test_def load_data_def shape_at_def torch_max_def torch_min_def
  build_model_def dict_get_def dict_set_def upt_rec empty_result_def

lemma example_run:
  "learn_rel example_trainer [''rels''] (example_meta 100)
     [(''glove'', example_loader [0, 1, 1, 0])] [] (\<lambda>n. Inr 3) None [''logreg''] 2
     None False False \<lparr>world = 0, trace = []\<rparr> =
   (Inr \<lparr>rel_name = ''plural'', rel_type = ''noun'', res_pos_exs = Some 100,
         emb_model_results =
           [(''glove'',
             [\<lparr>model = ''logreg'', run_i = 0, emb = ''glove'', epochs = 3,
                 pos_exs = 100, dataset_size = 100, dataset_tok_cnt = 200,
                 dataset_tok_found = 150, trainer_df = [9],
                 pretrain_test_result = 3, test_df = [7, 7],
                 test_random_result = 8\<rparr>,
              \<lparr>model = ''logreg'', run_i = 1, emb = ''glove'', epochs = 3,
                 pos_exs = 100, dataset_size = 100, dataset_tok_cnt = 200,
                 dataset_tok_found = 150, trainer_df = [18],
                 pretrain_test_result = 12, test_df = [16, 16],
                 test_random_result = 17\<rparr>])]\<rparr>,
    \<lparr>world = 18,
      trace =
       [PrintTraining 2, PrintRun 0 ''logreg'' ''glove'',
        CallLoadPairData ''glove'' [''rels'', ''noun_plural__100.txt''],
        PrintFile ''noun_plural__100.txt'', CallSplitData ''glove'' 41,
        CallBuildModel ''logreg'' 600, CallModelTrainer False, CallTest,
        CallTrain [0, 1, 2], PrintFinished 3, CallTestDf False,
        CallTestRandom, PrintRun 1 ''logreg'' ''glove'',
        CallLoadPairData ''glove'' [''rels'', ''noun_plural__100.txt''],
        PrintFile ''noun_plural__100.txt'', CallSplitData ''glove'' 41,
        CallBuildModel ''logreg'' 600, CallModelTrainer False, CallTest,
        CallTrain [0, 1, 2], PrintFinished 3, CallTestDf False,
        CallTestRandom]\<rparr>)"
  by (simp add: run_defs)

text \<open>
  C5. When \<open>learn_rel\<close> returns a result for a relation that passes the count and the filter
  checks, the list recorded under each loader name holds exactly one run per model and run
  index, in the order model outermost and run innermost, each with that model, that loader
  name as embedding source and that run index; no other key holds a run; and the iterations
  were started in the order of the product (model outermost, loader in the middle, run
  innermost), as the lines printed at the start of each iteration show.
\<close>

theorem learn_rel_records_every_combination:
  assumes "learn_rel T relpath rm dls srt efn rfo models n_runs dis dbg cuda s = (Inr res, s')"
    and "75 \<le> meta_cnt rm"
    and "\<forall>f. rfo = Some f \<longrightarrow> f rm"
    and "distinct (map fst dls)"
  shows "(\<forall>l\<in>set (map fst dls).
            map (\<lambda>r. (model r, emb r, run_i r)) (dict_get (emb_model_results res) l) =
              concat (map (\<lambda>m. map (\<lambda>r. (m, l, int r)) [0..<nat n_runs]) models)) \<and>
         (\<forall>l. l \<notin> set (map fst dls) \<longrightarrow> dict_get (emb_model_results res) l = []) \<and>
         (\<exists>evs. trace s' = trace s @ PrintTraining n_runs # evs \<and>
                filter is_print_run evs =
                  map (\<lambda>(m, l, r). PrintRun r m l) (combos models (map fst dls) n_runs))"
proof -
  let ?body = "learn_iter relpath rm dls srt efn T dis dbg cuda"
  let ?cs = "combos models (map fst dls) n_runs"
  let ?s1 = "s\<lparr>trace := trace s @ [PrintTraining n_runs]\<rparr>"
  have nf: "\<not> (case rfo of None \<Rightarrow> False | Some f \<Rightarrow> \<not> f rm)"
    using assms(3) by (cases rfo) auto
  from assms(1,2) nf have
    loop: "learn_loop ?body ?cs [] ?s1 = (Inr (emb_model_results res), s')"
    by (auto simp: learn_rel_def bindE_Inr logE_Inr returnE_def)
  have runs: "map (\<lambda>r. (model r, emb r, run_i r)) (dict_get (emb_model_results res) l) =
      map (\<lambda>(m, l', r). (m, l', int r)) (filter (\<lambda>(m, l', r). l' = l) ?cs)" for l
    using learn_loop_runs [OF loop, of l] by (simp add: dict_get_def)
  have a: "map (\<lambda>r. (model r, emb r, run_i r)) (dict_get (emb_model_results res) l) =
      concat (map (\<lambda>m. map (\<lambda>r. (m, l, int r)) [0..<nat n_runs]) models)"
    if "l \<in> set (map fst dls)" for l
    using that assms(4) by (simp add: runs filter_combos map_concat comp_def)
  have b: "dict_get (emb_model_results res) l = []" if "l \<notin> set (map fst dls)" for l
    using runs [of l] that assms(4) by (simp add: filter_combos)
  from learn_loop_trace [OF loop] have
    c: "\<exists>evs. trace s' = trace s @ PrintTraining n_runs # evs \<and>
           filter is_print_run evs = map (\<lambda>(m, l, r). PrintRun r m l) ?cs"
    by auto
  from a b c show ?thesis by blast
qed

theorem learn_rel_records_every_combination_witness:
  "(case learn_rel example_trainer [''rels''] (example_meta 100)
       [(''glove'', example_loader [0, 1, 1, 0])] [] (\<lambda>n. Inr 3) None [''logreg''] 2
       None False False \<lparr>world = 0, trace = []\<rparr> of
     (Inl e, s') \<Rightarrow> False
   | (Inr res, s') \<Rightarrow>
       length (dict_get (emb_model_results res) ''glove'') = 2 \<and>
       map (\<lambda>r. (model r, emb r, run_i r)) (dict_get (emb_model_results res) ''glove'') =
         [(''logreg'', ''glove'', 0), (''logreg'', ''glove'', 1)] \<and>
       filter is_print_run (trace s') =
         [PrintRun 0 ''logreg'' ''glove'', PrintRun 1 ''logreg'' ''glove''])"
proof -
  have h2: "75 \<le> meta_cnt (example_meta 100)"
    by (simp add: example_meta_def)
  have h3: "\<forall>f. None = Some f \<longrightarrow> f (example_meta 100)"
    by simp
  have h4: "distinct (map fst [(''glove'', example_loader [0, 1, 1, 0])])"
    by simp
  from learn_rel_records_every_combination [OF example_run h2 h3 h4]
  show ?thesis
    by (simp add: example_run dict_get_def combos_def upt_rec)
qed







text \<open>
  C2. For a relation with fewer than 75 positive examples, or one that the filter rejects,
  \<open>learn_rel\<close> returns the empty result with the relation's name, type and count and no
  runs; the world is unchanged and the only effect is one printed line, so no data loader
  was called and no model was built.
\<close>

theorem learn_rel_short_circuit:
  assumes "meta_cnt rm < 75 \<or> (\<exists>f. rel_filter_opt = Some f \<and> \<not> f rm)"
  shows "\<exists>ev. learn_rel T relpath rm data_loaders single_rel_types epochs_fn rel_filter_opt
              models n_runs train_input_disturber debug_test_df cuda s =
            (Inr \<lparr>rel_name = meta_name rm, rel_type = meta_type rm,
                  res_pos_exs = Some (meta_cnt rm), emb_model_results = []\<rparr>,
             s\<lparr>trace := trace s @ [ev]\<rparr>) \<and>
            (ev = PrintTooFew (meta_name rm) (meta_type rm) \<or>
             ev = PrintNotInFilter (meta_name rm) (meta_type rm))"
  using assms
  by (auto simp: learn_rel_def bindE_def logE_def returnE_def empty_result_def)

theorem learn_rel_short_circuit_witness:
  "learn_rel example_trainer [''rels''] (example_meta 74)
     [(''glove'', example_loader [0, 1, 1, 0])] [] (\<lambda>n. Inr 3) None [''logreg''] 2
     None False False \<lparr>world = 0, trace = []\<rparr> =
     (Inr \<lparr>rel_name = ''plural'', rel_type = ''noun'', res_pos_exs = Some 74,
           emb_model_results = []\<rparr>,
      \<lparr>world = 0, trace = [PrintTooFew ''plural'' ''noun'']\<rparr>) \<and>
   learn_rel example_trainer [''rels''] (example_meta 100)
     [(''glove'', example_loader [0, 1, 1, 0])] [] (\<lambda>n. Inr 3)
     (Some (\<lambda>rm. meta_type rm = ''verb'')) [''logreg''] 2
     None False False \<lparr>world = 0, trace = []\<rparr> =
     (Inr \<lparr>rel_name = ''plural'', rel_type = ''noun'', res_pos_exs = Some 100,
           emb_model_results = []\<rparr>,
      \<lparr>world = 0, trace = [PrintNotInFilter ''plural'' ''noun'']\<rparr>)"
proof -
  have h1: "meta_cnt (example_meta 74) < 75 \<or>
            (\<exists>f. None = Some f \<and> \<not> f (example_meta 74))"
    by (simp add: example_meta_def)
  have h2: "meta_cnt (example_meta 100) < 75 \<or>
            (\<exists>f. Some (\<lambda>rm. meta_type rm = ''verb'') = Some f \<and> \<not> f (example_meta 100))"
    by (simp add: example_meta_def)
  from learn_rel_short_circuit [OF h1, of example_trainer "[''rels'']"
         "[(''glove'', example_loader [0, 1, 1, 0])]" "[]" "\<lambda>n. Inr 3" "[''logreg'']" 2
         None False False "\<lparr>world = 0, trace = []\<rparr>"]
       learn_rel_short_circuit [OF h2, of example_trainer "[''rels'']"
         "[(''glove'', example_loader [0, 1, 1, 0])]" "[]" "\<lambda>n. Inr 3" "[''logreg'']" 2
         None False False "\<lparr>world = 0, trace = []\<rparr>"]
  show ?thesis
    by (simp add: learn_rel_def example_meta_def bindE_def logE_def returnE_def empty_result_def)
qed

text \<open>
  C10. For a relation with at least 75 positive examples that passes the filter, when the
  list of models is empty, or there is no data loader, or \<open>n_runs\<close> is not positive,
  \<open>learn_rel\<close> returns the relation's name, type and count with no runs; the world is
  unchanged and the only effect is the line announcing the training, so no data loader was
  called and no model was built.
\<close>

theorem learn_rel_empty_product:
  assumes "75 \<le> meta_cnt rm"
    and "\<forall>f. rel_filter_opt = Some f \<longrightarrow> f rm"
    and "models = [] \<or> data_loaders = [] \<or> n_runs \<le> 0"
  shows "learn_rel T relpath rm data_loaders single_rel_types epochs_fn rel_filter_opt
              models n_runs train_input_disturber debug_test_df cuda s =
            (Inr \<lparr>rel_name = meta_name rm, rel_type = meta_type rm,
                  res_pos_exs = Some (meta_cnt rm), emb_model_results = []\<rparr>,
             s\<lparr>trace := trace s @ [PrintTraining n_runs]\<rparr>)"
proof -
  have "combos models (map fst data_loaders) n_runs = []"
    using assms(3) by (auto simp: combos_def)
  moreover have "\<not> (case rel_filter_opt of None \<Rightarrow> False | Some f \<Rightarrow> \<not> f rm)"
    using assms(2) by (cases rel_filter_opt) auto
  ultimately show ?thesis
    using assms(1) by (simp add: learn_rel_def bindE_def logE_def returnE_def)
qed

theorem learn_rel_empty_product_witness:
  "learn_rel example_trainer [''rels''] (example_meta 100)
     [(''glove'', example_loader [0, 1, 1, 0])] [] (\<lambda>n. Inr 3) None [''logreg''] 0
     None False False \<lparr>world = 0, trace = []\<rparr> =
     (Inr \<lparr>rel_name = ''plural'', rel_type = ''noun'', res_pos_exs = Some 100,
           emb_model_results = []\<rparr>,
      \<lparr>world = 0, trace = [PrintTraining 0]\<rparr>) \<and>
   learn_rel example_trainer [''rels''] (example_meta 100)
     [(''glove'', example_loader [0, 1, 1, 0])] [] (\<lambda>n. Inr 3) None [] 5
     None False False \<lparr>world = 0, trace = []\<rparr> =
     (Inr \<lparr>rel_name = ''plural'', rel_type = ''noun'', res_pos_exs = Some 100,
           emb_model_results = []\<rparr>,
      \<lparr>world = 0, trace = [PrintTraining 5]\<rparr>) \<and>
   learn_rel example_trainer [''rels''] (example_meta 100)
     ([] :: (string, (unit, unit, nat) data_loader) dict) [] (\<lambda>n. Inr 3) None [''logreg''] 5
     None False False \<lparr>world = 0, trace = []\<rparr> =
     (Inr \<lparr>rel_name = ''plural'', rel_type = ''noun'', res_pos_exs = Some 100,
           emb_model_results = []\<rparr>,
      \<lparr>world = 0, trace = [PrintTraining 5]\<rparr>)"
proof -
  have h1: "75 \<le> meta_cnt (example_meta 100)"
    by (simp add: example_meta_def)
  have h2: "\<forall>f. None = Some f \<longrightarrow> f (example_meta 100)"
    by simp
  have a: "[''logreg''] = [] \<or> [(''glove'', example_loader [0, 1, 1, 0])] = [] \<or> (0::int) \<le> 0"
    by simp
  have b: "([]::string list) = [] \<or> [(''glove'', example_loader [0, 1, 1, 0])] = [] \<or> (5::int) \<le> 0"
    by simp
  have c: "[''logreg''] = [] \<or> ([] :: (string, (unit, unit, nat) data_loader) dict) = [] \<or>
           (5::int) \<le> 0"
    by simp
  show ?thesis
    using learn_rel_empty_product [OF h1 h2 a, of example_trainer "[''rels'']" "[]" "\<lambda>n. Inr 3"
            None False False "\<lparr>world = 0, trace = []\<rparr>"]
          learn_rel_empty_product [OF h1 h2 b, of example_trainer "[''rels'']" "[]" "\<lambda>n. Inr 3"
            None False False "\<lparr>world = 0, trace = []\<rparr>"]
          learn_rel_empty_product [OF h1 h2 c, of example_trainer "[''rels'']" "[]" "\<lambda>n. Inr 3"
            None False False "\<lparr>world = 0, trace = []\<rparr>"]
    by (simp add: example_meta_def)
qed

section \<open>Properties of the epoch heuristic\<close>

lemma py_round_eq:
  assumes "of_int k - 1 / 2 < y" "y < of_int k + 1 / 2"
  shows "py_round y = k"
proof -
  have r: "round y = k"
    using assms by (intro round_unique) auto
  have "frac y \<noteq> 1 / 2"
  proof
    assume h: "frac y = 1 / 2"
    then have "y = of_int \<lfloor>y\<rfloor> + 1 / 2"
      by (simp add: frac_def)
    with assms have "of_int k - 1 < (of_int \<lfloor>y\<rfloor> :: real)" "(of_int \<lfloor>y\<rfloor> :: real) < of_int k"
      by linarith+
    then have "k - 1 < \<lfloor>y\<rfloor>" "\<lfloor>y\<rfloor> < k"
      by linarith+
    then show False by linarith
  qed
  with r show ?thesis by (simp add: py_round_def)
qed

lemma py_round_ge:
  assumes "of_int k - 1 / 2 < y"
  shows "k \<le> py_round y"
proof -
  have "of_int k \<le> y + 1 / 2" using assms by linarith
  then have "k \<le> \<lfloor>y + 1 / 2\<rfloor>" by (simp add: le_floor_iff)
  then have r: "k \<le> round y" by (simp add: round_def)
  show ?thesis
  proof (cases "frac y = 1 / 2")
    case False
    with r show ?thesis by (simp add: py_round_def)
  next
    case True
    then have y: "y = of_int \<lfloor>y\<rfloor> + 1 / 2"
      by (simp add: frac_def)
    with assms have "of_int k - 1 < (of_int \<lfloor>y\<rfloor> :: real)" by linarith
    then have "k \<le> \<lfloor>y\<rfloor>" by linarith
    then show ?thesis using True by (simp add: py_round_def)
  qed
qed

lemma log10_bounds:
  fixes x :: real
  assumes "0 < x"
  shows "10 powr a < x\<^sup>2 \<Longrightarrow> a / 2 < log 10 x"
    and "x\<^sup>2 < 10 powr b \<Longrightarrow> log 10 x < b / 2"
proof -
  have l: "log 10 (x\<^sup>2) = 2 * log 10 x"
    using assms by (simp add: log_nat_power)
  have p: "0 < x\<^sup>2" using assms by simp
  show "10 powr a < x\<^sup>2 \<Longrightarrow> a / 2 < log 10 x"
    using less_log_iff [of 10 "x\<^sup>2" a] p l by simp
  show "x\<^sup>2 < 10 powr b \<Longrightarrow> log 10 x < b / 2"
    using log_less_iff [of 10 "x\<^sup>2" b] p l by simp
qed

lemma order_in_range:
  fixes n lo hi :: nat and k :: int
  assumes "10 powr (2 * real_of_int k + 1) < (real lo / 2)\<^sup>2" "0 < lo" "lo \<le> n"
    and "(real hi / 2)\<^sup>2 < 10 powr (2 * real_of_int k + 3)" "n \<le> hi"
  shows "py_round (log 10 (real n / 2) - 1) = k"
proof -
  let ?x = "real n / 2"
  have x: "0 < ?x" using assms(2,3) by simp
  have "(real lo / 2)\<^sup>2 \<le> ?x\<^sup>2"
    using assms(3) by (intro power_mono) auto
  with assms(1) have a: "10 powr (2 * real_of_int k + 1) < ?x\<^sup>2" by linarith
  have "?x\<^sup>2 \<le> (real hi / 2)\<^sup>2"
    using assms(5) by (intro power_mono) auto
  with assms(4) have b: "?x\<^sup>2 < 10 powr (2 * real_of_int k + 3)" by linarith
  from log10_bounds(1) [OF x a] log10_bounds(2) [OF x b]
  show ?thesis by (intro py_round_eq) (simp_all add: field_simps)
qed

lemma order_large:
  fixes n lo :: nat and k :: int
  assumes "10 powr (2 * real_of_int k + 1) < (real lo / 2)\<^sup>2" "0 < lo" "lo \<le> n"
  shows "k \<le> py_round (log 10 (real n / 2) - 1)"
proof -
  let ?x = "real n / 2"
  have x: "0 < ?x" using assms(2,3) by simp
  have "(real lo / 2)\<^sup>2 \<le> ?x\<^sup>2"
    using assms(3) by (intro power_mono) auto
  with assms(1) have a: "10 powr (2 * real_of_int k + 1) < ?x\<^sup>2" by linarith
  from log10_bounds(1) [OF x a]
  show ?thesis by (intro py_round_ge) (simp_all add: field_simps)
qed

lemma order_0: "0 < n \<Longrightarrow> n \<le> 6 \<Longrightarrow> py_round (log 10 (real n / 2) - 1) = - 1"
  by (rule order_in_range [where lo = 1 and hi = 6]) (simp_all add: power2_eq_square)

lemma order_1: "6 < n \<Longrightarrow> n \<le> 63 \<Longrightarrow> py_round (log 10 (real n / 2) - 1) = 0"
  by (rule order_in_range [where lo = 7 and hi = 63]) (simp_all add: power2_eq_square)

lemma order_2: "63 < n \<Longrightarrow> n \<le> 632 \<Longrightarrow> py_round (log 10 (real n / 2) - 1) = 1"
  by (rule order_in_range [where lo = 64 and hi = 632]) (simp_all add: power2_eq_square)

lemma order_3: "632 < n \<Longrightarrow> n \<le> 6324 \<Longrightarrow> py_round (log 10 (real n / 2) - 1) = 2"
  by (rule order_in_range [where lo = 633 and hi = 6324]) (simp_all add: power2_eq_square)

lemma order_4: "6324 < n \<Longrightarrow> n \<le> 63245 \<Longrightarrow> py_round (log 10 (real n / 2) - 1) = 3"
  by (rule order_in_range [where lo = 6325 and hi = 63245]) (simp_all add: power2_eq_square)

lemma order_5: "63245 < n \<Longrightarrow> n \<le> 632455 \<Longrightarrow> py_round (log 10 (real n / 2) - 1) = 4"
  by (rule order_in_range [where lo = 63246 and hi = 632455]) (simp_all add: power2_eq_square)

lemma order_6: "632455 < n \<Longrightarrow> n \<le> 6324555 \<Longrightarrow> py_round (log 10 (real n / 2) - 1) = 5"
  by (rule order_in_range [where lo = 632456 and hi = 6324555]) (simp_all add: power2_eq_square)

lemma order_7: "6324555 < n \<Longrightarrow> n \<le> 63245553 \<Longrightarrow> py_round (log 10 (real n / 2) - 1) = 6"
  by (rule order_in_range [where lo = 6324556 and hi = 63245553]) (simp_all add: power2_eq_square)

lemma order_8: "63245553 < n \<Longrightarrow> n \<le> 632455532 \<Longrightarrow> py_round (log 10 (real n / 2) - 1) = 7"
  by (rule order_in_range [where lo = 63245554 and hi = 632455532]) (simp_all add: power2_eq_square)

lemma order_9: "632455532 < n \<Longrightarrow> 8 \<le> py_round (log 10 (real n / 2) - 1)"
  by (rule order_large [where lo = 632455533]) (simp_all add: power2_eq_square)

lemma py_round_values:
  "py_round 192 = 192" "py_round 96 = 96" "py_round 48 = 48" "py_round 24 = 24"
  "py_round 12 = 12" "py_round 6 = 6" "py_round 3 = 3"
  "py_round (3 / 2) = 2" "py_round (3 / 4) = 1"
  by (simp_all add: py_round_def frac_def round_def)

lemma epochs_huge:
  assumes "632455532 < n" "n < true_div_limit"
  shows "epochs_from_trainset_size n = Inr 0"
proof -
  let ?o = "py_round (log 10 (real n / 2) - 1)"
  define z where "z = 2 powr real_of_int (5 - ?o) * 3"
  have o: "8 \<le> ?o" by (rule order_9 [OF assms(1)])
  have "2 powr real_of_int (5 - ?o) \<le> 2 powr (- 3)"
    using o by (subst powr_le_cancel_iff) auto
  then have u: "z \<le> 3 / 8"
    by (simp add: z_def powr_neg_numeral)
  have l: "0 < z"
    by (simp add: z_def)
  have "py_round z = 0"
  proof (rule py_round_eq)
    show "of_int 0 - 1 / 2 < z" using l by simp
    show "z < of_int 0 + 1 / 2" using u by simp
  qed
  then show ?thesis
    using assms by (simp add: epochs_from_trainset_size_def Let_def z_def)
qed

lemma epochs_closed_form:
  assumes "0 < n" "n < true_div_limit"
  shows "epochs_from_trainset_size n = Inr (epochs_by_size n)"
proof -
  consider "n \<le> 6" | "6 < n" "n \<le> 63" | "63 < n" "n \<le> 632" | "632 < n" "n \<le> 6324"
    | "6324 < n" "n \<le> 63245" | "63245 < n" "n \<le> 632455" | "632455 < n" "n \<le> 6324555"
    | "6324555 < n" "n \<le> 63245553" | "63245553 < n" "n \<le> 632455532" | "632455532 < n"
    by linarith
  then show ?thesis
  proof cases
    case 1
    with assms order_0 [of n] show ?thesis
      by (simp add: epochs_from_trainset_size_def epochs_by_size_def Let_def py_round_values)
  next
    case 2
    with assms(2) order_1 [of n] show ?thesis
      by (simp add: epochs_from_trainset_size_def epochs_by_size_def Let_def py_round_values)
  next
    case 3
    with assms(2) order_2 [of n] show ?thesis
      by (simp add: epochs_from_trainset_size_def epochs_by_size_def Let_def py_round_values)
  next
    case 4
    with assms(2) order_3 [of n] show ?thesis
      by (simp add: epochs_from_trainset_size_def epochs_by_size_def Let_def py_round_values)
  next
    case 5
    with assms(2) order_4 [of n] show ?thesis
      by (simp add: epochs_from_trainset_size_def epochs_by_size_def Let_def py_round_values)
  next
    case 6
    with assms(2) order_5 [of n] show ?thesis
      by (simp add: epochs_from_trainset_size_def epochs_by_size_def Let_def py_round_values)
  next
    case 7
    with assms(2) order_6 [of n] show ?thesis
      by (simp add: epochs_from_trainset_size_def epochs_by_size_def Let_def py_round_values)
  next
    case 8
    with assms(2) order_7 [of n] show ?thesis
      by (simp add: epochs_from_trainset_size_def epochs_by_size_def Let_def py_round_values
          powr_neg_numeral)
  next
    case 9
    with assms(2) order_8 [of n] show ?thesis
      by (simp add: epochs_from_trainset_size_def epochs_by_size_def Let_def py_round_values
          powr_neg_numeral)
  next
    case 10
    with assms(2) epochs_huge [of n] show ?thesis
      by (simp add: epochs_by_size_def)
  qed
qed

lemma epochs_by_size_antimono: "m \<le> n \<Longrightarrow> epochs_by_size n \<le> epochs_by_size m"
  by (simp add: epochs_by_size_def)

lemma small_below_limit: "n \<le> 20000000000 \<Longrightarrow> n < true_div_limit"
proof -
  have "(20000000000::nat) < 2 ^ 971"
    by simp
  moreover have "(2::nat) ^ 971 \<le> 2 ^ 1025 - 2 ^ 971"
    by simp
  ultimately show "n \<le> 20000000000 \<Longrightarrow> n < true_div_limit"
    by (simp add: true_div_limit_def)
qed

text \<open>
  C3, as amended. For every size \<open>n > 0\<close> below \<open>2 ^ 1025 - 2 ^ 971\<close> the heuristic
  returns a non-negative integer, which is positive exactly when \<open>n \<le> 632455532\<close>; the
  result for a size ten times larger, when that is below the limit too, is never larger;
  and from the limit on the heuristic raises \<open>OverflowError\<close>.
\<close>

theorem epochs_heuristic:
  assumes "0 < n"
  shows "if n < true_div_limit
         then \<exists>e. epochs_from_trainset_size n = Inr e \<and> 0 \<le> e \<and>
                (n \<le> 632455532 \<longleftrightarrow> 0 < e) \<and>
                (if 10 * n < true_div_limit
                 then \<exists>e10. epochs_from_trainset_size (10 * n) = Inr e10 \<and> e10 \<le> e
                 else epochs_from_trainset_size (10 * n) = Inl OverflowError)
         else epochs_from_trainset_size n = Inl OverflowError"
proof (cases "n < true_div_limit")
  case False
  with assms show ?thesis
    by (simp add: epochs_from_trainset_size_def)
next
  case True
  have a: "epochs_from_trainset_size n = Inr (epochs_by_size n)"
    by (rule epochs_closed_form [OF assms True])
  have d: "0 \<le> epochs_by_size n" "n \<le> 632455532 \<longleftrightarrow> 0 < epochs_by_size n"
    by (simp_all add: epochs_by_size_def)
  have c: "epochs_by_size (10 * n) \<le> epochs_by_size n"
    by (rule epochs_by_size_antimono) simp
  have p: "0 < 10 * n" using assms by simp
  show ?thesis
  proof (cases "10 * n < true_div_limit")
    case True
    from epochs_closed_form [OF p True] True a c d \<open>n < true_div_limit\<close> show ?thesis
      by simp
  next
    case False
    with p have "epochs_from_trainset_size (10 * n) = Inl OverflowError"
      by (simp add: epochs_from_trainset_size_def)
    with False a d \<open>n < true_div_limit\<close> show ?thesis
      by simp
  qed
qed

theorem epochs_heuristic_witness:
  "epochs_from_trainset_size 100 = Inr 48 \<and> epochs_from_trainset_size 1000 = Inr 24 \<and>
   epochs_from_trainset_size true_div_limit = Inl OverflowError"
proof -
  have h: "(0::nat) < 100" by simp
  have l: "(0::nat) < true_div_limit"
    using small_below_limit [of 0] by simp
  have a: "(100::nat) < true_div_limit" "(10::nat) * 100 < true_div_limit"
    by (simp_all add: small_below_limit)
  from epochs_heuristic [OF h] epochs_heuristic [OF l] a show ?thesis
    by (simp add: epochs_closed_form epochs_by_size_def)
qed

text \<open>
  C3, as stated, fails: for a training set of two billion examples the heuristic returns
  zero epochs.
\<close>

theorem epochs_not_always_positive:
  "\<not> (\<forall>n>0. \<exists>e. epochs_from_trainset_size n = Inr e \<and> 0 < e)"
proof
  assume "\<forall>n>0. \<exists>e. epochs_from_trainset_size n = Inr e \<and> 0 < e"
  then have "\<exists>e. epochs_from_trainset_size 2000000000 = Inr e \<and> 0 < e"
    by simp
  then show False
    by (simp add: epochs_closed_form small_below_limit epochs_by_size_def)
qed

section \<open>Properties of the relation metadata scanner\<close>

lemma py_int_error: "py_int s = Inl e \<Longrightarrow> e = ValueError"
  by (auto simp: py_int_def split: list.splits if_splits option.splits)

lemma parse_rel_file_eq:
  "parse_rel_file f =
     (case py_int (count_text f) of Inl e \<Rightarrow> Inl ValueError | Inr c \<Rightarrow> Inr (rel_of_file f c))"
  by (auto simp: parse_rel_file_def count_text_def rel_of_file_def Let_def
      split: sum.splits dest: py_int_error)

lemma rels_of_files_result:
  "rels_of_files fs =
     (if \<exists>f\<in>set fs. py_int (count_text f) = Inl ValueError then Inl ValueError
      else Inr (map (\<lambda>f. rel_of_file f (projr (py_int (count_text f)))) fs))"
proof (induction fs)
  case Nil
  show ?case by simp
next
  case (Cons f fs)
  show ?case
  proof (cases "py_int (count_text f)")
    case (Inl e)
    then have "e = ValueError" by (rule py_int_error)
    with Inl show ?thesis by (simp add: parse_rel_file_eq)
  next
    case (Inr c)
    then show ?thesis by (simp add: parse_rel_file_eq Cons.IH)
  qed
qed

text \<open>
  C6, as amended. \<open>load_rels_meta\<close> fails with \<open>ValueError\<close> exactly when, for some
  regular file of the directory, the text between two characters after the first
  \<^verbatim>\<open>__\<close> and the first \<^verbatim>\<open>.txt\<close> is rejected by \<^verbatim>\<open>int\<close>; otherwise it returns one
  record per regular file, in listing order: no file is skipped.
\<close>

theorem load_rels_meta_fails_iff:
  assumes "listdir ls fs relpath = Inr names"
    and "files = filter (\<lambda>f. isfile fs (relpath @ [f])) names"
  shows "if \<exists>f\<in>set files. py_int (count_text f) = Inl ValueError
         then load_rels_meta ls fs relpath = Inl ValueError
         else \<exists>rels. load_rels_meta ls fs relpath = Inr rels \<and> map meta_file rels = files \<and>
                length rels = length files"
  using assms
  by (simp add: load_rels_meta_def rels_of_files_result rel_of_file_def comp_def)

lemmas parse_defs =
  parse_rel_file_def str_find_def py_slice_def py_int_def strip_def is_space_def
  parse_nat_def is_digit_def digit_val_def count_text_def

lemmas fs_defs =
  fs_lookup_def isdir_def isfile_def exists_path_def children_def listdir_def

theorem load_rels_meta_fails_iff_witness:
  "load_rels_meta (\<lambda>xs. xs)
     [([''rels'', ''noun_plural__120.txt''], File (Text [])),
      ([''rels'', ''README.txt''], File (Text [])), ([''rels''], Dir)] [''rels''] =
     Inl ValueError \<and>
   (\<exists>rels. load_rels_meta (\<lambda>xs. xs)
      [([''rels'', ''noun_plural__120.txt''], File (Text [])),
       ([''rels'', ''sub''], Dir), ([''rels''], Dir)] [''rels''] = Inr rels \<and>
      map meta_file rels = [''noun_plural__120.txt''] \<and> length rels = 1)"
proof -
  let ?fs1 = "[([''rels'', ''noun_plural__120.txt''], File (Text [])),
      ([''rels'', ''README.txt''], File (Text [])), ([''rels''], Dir)]"
  let ?fs2 = "[([''rels'', ''noun_plural__120.txt''], File (Text [])),
       ([''rels'', ''sub''], Dir), ([''rels''], Dir)]"
  have l1: "listdir (\<lambda>xs. xs) ?fs1 [''rels''] = Inr [''noun_plural__120.txt'', ''README.txt'']"
    by (simp add: fs_defs)
  have f1: "[''noun_plural__120.txt'', ''README.txt''] =
      filter (\<lambda>f. isfile ?fs1 ([''rels''] @ [f])) [''noun_plural__120.txt'', ''README.txt'']"
    by (simp add: fs_defs)
  have l2: "listdir (\<lambda>xs. xs) ?fs2 [''rels''] = Inr [''noun_plural__120.txt'', ''sub'']"
    by (simp add: fs_defs)
  have f2: "[''noun_plural__120.txt''] =
      filter (\<lambda>f. isfile ?fs2 ([''rels''] @ [f])) [''noun_plural__120.txt'', ''sub'']"
    by (simp add: fs_defs)
  have p1: "py_int (count_text ''README.txt'') = Inl ValueError"
    by (simp add: parse_defs)
  have p2: "py_int (count_text ''noun_plural__120.txt'') = Inr 120"
    by (simp add: parse_defs)
  from load_rels_meta_fails_iff [OF l1 f1] load_rels_meta_fails_iff [OF l2 f2]
  show ?thesis by (simp add: p1 p2)
qed

lemma convention_has_underscore: "follows_convention f \<Longrightarrow> CHR ''_'' \<in> set f"
  by (auto simp: follows_convention_def)

text \<open>
  C6, as stated, fails: the file name \<^verbatim>\<open>x7.txt\<close> does not follow the convention, and
  \<open>load_rels_meta\<close> returns a record for it, with type and name \<^verbatim>\<open>x7.tx\<close> and count 7.
\<close>

theorem load_rels_meta_accepts_malformed:
  "\<not> follows_convention ''x7.txt'' \<and>
   load_rels_meta (\<lambda>xs. xs)
     [([''rels'', ''x7.txt''], File (Text [])), ([''rels''], Dir)] [''rels''] =
   Inr [\<lparr>meta_type = ''x7.tx'', meta_name = ''x7.tx'', meta_cnt = 7, meta_file = ''x7.txt''\<rparr>]"
proof -
  have "\<not> follows_convention ''x7.txt''"
    using convention_has_underscore [of "''x7.txt''"] by auto
  moreover have "parse_rel_file ''x7.txt'' =
      Inr \<lparr>meta_type = ''x7.tx'', meta_name = ''x7.tx'', meta_cnt = 7, meta_file = ''x7.txt''\<rparr>"
    by (simp add: parse_defs)
  ultimately show ?thesis
    by (simp add: load_rels_meta_def fs_defs)
qed

lemma parse_rel_file_example:
  "parse_rel_file ''noun_plural__120.txt'' =
     Inr \<lparr>meta_type = ''noun'', meta_name = ''plural'', meta_cnt = 120,
          meta_file = ''noun_plural__120.txt''\<rparr>"
  by (simp add: parse_defs)

section \<open>Properties of the result store and loader\<close>




text \<open>
  C7. A relation directory is stored with two runs, whose counts of positive examples are
  0 and 5, and loaded with the first run listed first: the loaded result lists the run
  with count 0 first, and its aggregate count is 5, the count of the second run, because a
  count of 0 is taken for a count not yet set.
\<close>

theorem load_learn_result_pos_exs_after_zero:
  "bindR (store_learn_result text_codecs [''out'']
            \<lparr>rel_name = ''plural'', rel_type = ''noun'', res_pos_exs = Some 0,
             emb_model_results = [(''glove'', example_runs 0 5)]\<rparr> [])
         (\<lambda>fs. load_learn_result text_codecs rev fs [''out''] ''noun'' ''plural'') =
   Inr \<lparr>rel_name = ''plural'', rel_type = ''noun'', res_pos_exs = Some 5,
        emb_model_results = [(''glove'', example_runs 0 5)]\<rparr>"
  by code_simp









lemma prefixes_from_append:
  "prefixes_from d (xs @ ys) = prefixes_from d xs @ prefixes_from (d @ xs) ys"
  by (induction xs arbitrary: d) auto

lemma makedirs_from_map_of:
  "makedirs_from fs d p = Inr fs' \<Longrightarrow>
   map_of fs' q =
     (if map_of fs q = None \<and> q \<in> set (prefixes_from d p) then Some Dir else map_of fs q)"
proof (induction p arbitrary: fs d)
  case Nil
  then show ?case by simp
next
  case (Cons n rest)
  show ?case
  proof (cases "map_of fs (d @ [n])")
    case None
    with Cons.prems have "makedirs_from ((d @ [n], Dir) # fs) (d @ [n]) rest = Inr fs'"
      by (simp add: fs_lookup_def)
    from Cons.IH [OF this] None show ?thesis by auto
  next
    case (Some v)
    with Cons.prems have v: "v = Dir" and "makedirs_from fs (d @ [n]) rest = Inr fs'"
      by (auto simp: fs_lookup_def split: node.splits if_splits)
    from Cons.IH [OF this(2)] Some show ?thesis by auto
  qed
qed

lemma makedirs_from_dirs:
  "makedirs_from fs d p = Inr fs' \<Longrightarrow> q \<in> set (prefixes_from d p) \<Longrightarrow> map_of fs' q = Some Dir"
proof (induction p arbitrary: fs d)
  case Nil
  then show ?case by simp
next
  case (Cons n rest)
  show ?case
  proof (cases "map_of fs (d @ [n])")
    case None
    with Cons.prems(1) have m: "makedirs_from ((d @ [n], Dir) # fs) (d @ [n]) rest = Inr fs'"
      by (simp add: fs_lookup_def)
    show ?thesis
    proof (cases "q = d @ [n]")
      case True
      then show ?thesis using makedirs_from_map_of [OF m, of q] by simp
    next
      case False
      with Cons.prems(2) have "q \<in> set (prefixes_from (d @ [n]) rest)" by simp
      then show ?thesis by (rule Cons.IH [OF m])
    qed
  next
    case (Some v)
    with Cons.prems(1) have v: "v = Dir" and m: "makedirs_from fs (d @ [n]) rest = Inr fs'"
      by (auto simp: fs_lookup_def split: node.splits if_splits)
    show ?thesis
    proof (cases "q = d @ [n]")
      case True
      then show ?thesis using makedirs_from_map_of [OF m, of q] Some v by simp
    next
      case False
      with Cons.prems(2) have "q \<in> set (prefixes_from (d @ [n]) rest)" by simp
      then show ?thesis by (rule Cons.IH [OF m])
    qed
  qed
qed












end
